theory Spec2Isabelle
  imports Main
begin

section \<open>Types, operations and errors used by the leaf expressions\<close>

text \<open>
  Modelled from the spec: the result types of \<^verbatim>\<open>pyteal/types.py\<close> (\<^verbatim>\<open>TealType\<close>), whose
  declaration is not among the sources. The leaf expressions only use the unsigned
  64-bit integer and the byte string.
\<close>

datatype TealType = uint64 | bytes

text \<open>
  Modelled from the spec: the exceptions of \<^verbatim>\<open>pyteal/errors.py\<close>, which is not among the
  sources. \<^verbatim>\<open>TealInputError\<close> is the class \<^verbatim>\<open>int.py\<close> raises, with its message.
  \<^verbatim>\<open>UnsupportedVersionError\<close> is what \<^verbatim>\<open>verifyFieldVersion\<close> raises; it carries the field's
  canonical name, its minimum version and the requested version. \<^verbatim>\<open>KeyError\<close> and
  \<^verbatim>\<open>ValueError\<close> are Python's own: the first is raised by a dictionary subscript on a
  missing key, the second by the conversion of an integer with too many digits to a string.
\<close>

datatype teal_error =
    TealInputError string
  | KeyError string
  | ValueError
  | UnsupportedVersionError string int int

text \<open>
  The values a constructor can be called with. Python is dynamically typed, so
  \<^verbatim>\<open>Int(value)\<close> can receive any object: an \<^verbatim>\<open>int\<close> (unbounded), a \<^verbatim>\<open>bool\<close> (a subclass
  of \<^verbatim>\<open>int\<close>), a \<^verbatim>\<open>float\<close> (kept as mantissa and binary exponent, never inspected), a
  \<^verbatim>\<open>str\<close>, \<^verbatim>\<open>None\<close>, or an instance of any other class (a user's subclass of \<^verbatim>\<open>int\<close>, a
  member of an enumeration), given by how \<^verbatim>\<open>format\<close> renders that class, for instance
  \<^verbatim>\<open><class 'decimal.Decimal'>\<close> or \<^verbatim>\<open><enum 'GlobalField'>\<close>.
\<close>

datatype py_value =
    PyInt int
  | PyBool bool
  | PyFloat int int
  | PyStr string
  | PyNone
  | PyObject string

text \<open>\<^verbatim>\<open>type(value)\<close>: the exact class of a value. \<^verbatim>\<open>bool\<close> is a class of its own.\<close>

datatype py_class =
    Class_int
  | Class_bool
  | Class_float
  | Class_str
  | Class_NoneType
  | Class_other string

fun py_type :: "py_value \<Rightarrow> py_class" where
  "py_type (PyInt _) = Class_int"
| "py_type (PyBool _) = Class_bool"
| "py_type (PyFloat _ _) = Class_float"
| "py_type (PyStr _) = Class_str"
| "py_type PyNone = Class_NoneType"
| "py_type (PyObject rendering) = Class_other rendering"

text \<open>How \<^verbatim>\<open>format\<close> renders a class.\<close>

fun py_str_type :: "py_class \<Rightarrow> string" where
  "py_str_type Class_int = ''<class 'int'>''"
| "py_str_type Class_bool = ''<class 'bool'>''"
| "py_str_type Class_float = ''<class 'float'>''"
| "py_str_type Class_str = ''<class 'str'>''"
| "py_str_type Class_NoneType = ''<class 'NoneType'>''"
| "py_str_type (Class_other rendering) = rendering"

text \<open>
  The decimal digits of a natural number, most significant first.
\<close>

definition digit_char :: "nat \<Rightarrow> char" where
  "digit_char d = ''0123456789'' ! d"

fun str_nat :: "nat \<Rightarrow> string" where
  "str_nat n = (if n < 10 then [digit_char n] else str_nat (n div 10) @ [digit_char (n mod 10)])"

declare str_nat.simps [simp del]

text \<open>
  How \<^verbatim>\<open>format\<close> renders an \<^verbatim>\<open>int\<close>: its decimal digits, after a minus sign for a negative
  number. The interpreter refuses the conversion with \<^verbatim>\<open>ValueError\<close> when there are more
  digits, the sign not counted, than its limit \<^verbatim>\<open>sys.get_int_max_str_digits()\<close>, which is
  4300 unless reconfigured.
\<close>

definition int_max_str_digits :: nat where
  "int_max_str_digits = 4300"

definition py_str_int :: "int \<Rightarrow> teal_error + string" where
  "py_str_int i =
     (let digits = str_nat (nat \<bar>i\<bar>)
      in if length digits > int_max_str_digits then Inl ValueError
         else Inr ((if i < 0 then ''-'' else []) @ digits))"

text \<open>
  What the decimal form of a number is, to say what \<open>str_nat\<close> renders: a string that is
  not empty, has digits only, has no leading zero unless it is \<^verbatim>\<open>0\<close> itself, and reads
  back as the number.
\<close>

definition digit_value :: "char \<Rightarrow> nat" where
  "digit_value c = of_char c - 48"

definition nat_of_decimal :: "string \<Rightarrow> nat" where
  "nat_of_decimal s = foldl (\<lambda>a c. 10 * a + digit_value c) 0 s"

definition is_decimal_of :: "string \<Rightarrow> nat \<Rightarrow> bool" where
  "is_decimal_of s n \<longleftrightarrow>
     s \<noteq> [] \<and> set s \<subseteq> set ''0123456789'' \<and>
     (s = ''0'' \<or> hd s \<in> set ''123456789'') \<and> nat_of_decimal s = n"

text \<open>
  Modelled from the spec: the operations of \<^verbatim>\<open>pyteal/ir\<close> (\<^verbatim>\<open>Op\<close>), not among the sources.
  The leaf expressions emit \<^verbatim>\<open>Op.int\<close> and \<^verbatim>\<open>Op.global_\<close> only.
\<close>

datatype Op = Op_int | Op_global

text \<open>
  Modelled from the spec: the compile options of \<^verbatim>\<open>pyteal/compiler\<close> (\<^verbatim>\<open>CompileOptions\<close>),
  not among the sources: the execution mode and the target version.
\<close>

datatype Mode = Signature | Application

record CompileOptions =
  mode :: Mode
  version :: int

section \<open>The registry of global fields (\<^verbatim>\<open>global_.py\<close>)\<close>

text \<open>The members of the enumeration \<^verbatim>\<open>GlobalField\<close>, in the order of their declaration.\<close>

datatype GlobalField =
    GlobalField_min_txn_fee
  | GlobalField_min_balance
  | GlobalField_max_txn_life
  | GlobalField_zero_address
  | GlobalField_group_size
  | GlobalField_logic_sig_version
  | GlobalField_round
  | GlobalField_latest_timestamp
  | GlobalField_current_app_id
  | GlobalField_creator_address

definition GlobalField_members :: "GlobalField list" where
  "GlobalField_members =
     [GlobalField_min_txn_fee, GlobalField_min_balance, GlobalField_max_txn_life,
      GlobalField_zero_address, GlobalField_group_size, GlobalField_logic_sig_version,
      GlobalField_round, GlobalField_latest_timestamp, GlobalField_current_app_id,
      GlobalField_creator_address]"

text \<open>The tuple each member is declared with: id, name, type, minimum version.\<close>

fun GlobalField_value :: "GlobalField \<Rightarrow> int \<times> string \<times> TealType \<times> int" where
  "GlobalField_value GlobalField_min_txn_fee = (0, ''MinTxnFee'', uint64, 2)"
| "GlobalField_value GlobalField_min_balance = (1, ''MinBalance'', uint64, 2)"
| "GlobalField_value GlobalField_max_txn_life = (2, ''MaxTxnLife'', uint64, 2)"
| "GlobalField_value GlobalField_zero_address = (3, ''ZeroAddress'', bytes, 2)"
| "GlobalField_value GlobalField_group_size = (4, ''GroupSize'', uint64, 2)"
| "GlobalField_value GlobalField_logic_sig_version = (5, ''LogicSigVersion'', uint64, 2)"
| "GlobalField_value GlobalField_round = (6, ''Round'', uint64, 2)"
| "GlobalField_value GlobalField_latest_timestamp = (7, ''LatestTimestamp'', uint64, 2)"
| "GlobalField_value GlobalField_current_app_id = (8, ''CurrentApplicationID'', uint64, 2)"
| "GlobalField_value GlobalField_creator_address = (9, ''CreatorAddress'', bytes, 3)"

text \<open>\<^verbatim>\<open>GlobalField.__init__\<close> stores the four components as attributes.\<close>

definition GlobalField_id :: "GlobalField \<Rightarrow> int" where
  "GlobalField_id f = (case GlobalField_value f of (i, n, t, m) \<Rightarrow> i)"

definition arg_name :: "GlobalField \<Rightarrow> string" where
  "arg_name f = (case GlobalField_value f of (i, n, t, m) \<Rightarrow> n)"

definition ret_type :: "GlobalField \<Rightarrow> TealType" where
  "ret_type f = (case GlobalField_value f of (i, n, t, m) \<Rightarrow> t)"

definition min_version :: "GlobalField \<Rightarrow> int" where
  "min_version f = (case GlobalField_value f of (i, n, t, m) \<Rightarrow> m)"

definition GlobalField_type_of :: "GlobalField \<Rightarrow> TealType" where
  "GlobalField_type_of f = ret_type f"

section \<open>Expression nodes\<close>

text \<open>
  The three leaf classes, each with the attribute its constructor sets: \<^verbatim>\<open>Global.field\<close>,
  \<^verbatim>\<open>Int.value\<close>, \<^verbatim>\<open>EnumInt.name\<close>. The class \<^verbatim>\<open>Int\<close> is \<open>Int_Expr\<close> here.
\<close>

datatype Global = Global (Global_field: GlobalField)

datatype Int_Expr = Int_Expr (Int_value: int)

datatype EnumInt = EnumInt (EnumInt_name: string)

text \<open>Any of them is a leaf expression (\<^verbatim>\<open>LeafExpr\<close>).\<close>

datatype Expr = Expr_Global Global | Expr_Int Int_Expr | Expr_EnumInt EnumInt

text \<open>
  Modelled from the spec: the instruction \<^verbatim>\<open>TealOp\<close> and the unit \<^verbatim>\<open>TealBlock\<close> of
  \<^verbatim>\<open>pyteal/ir\<close>, not among the sources. An instruction has an operation, its operands in
  order, and a reference back to the expression it comes from, used for diagnostics.
  \<^verbatim>\<open>global_.py\<close> passes the expression first, \<^verbatim>\<open>TealOp(self, Op.global_, name)\<close>; \<^verbatim>\<open>int.py\<close>
  passes none, \<^verbatim>\<open>TealOp(Op.int, value)\<close>, which is \<open>None\<close> here. \<^verbatim>\<open>TealBlock.FromOp\<close> wraps one
  instruction into a unit; the options \<^verbatim>\<open>global_.py\<close> passes to it (and \<^verbatim>\<open>int.py\<close> does
  not) leave no trace in the unit.
\<close>

datatype teal_arg = ArgInt int | ArgStr string

record TealOp =
  expr :: "Expr option"
  op :: Op
  args :: "teal_arg list"

record TealBlock =
  ops :: "TealOp list"

definition FromOp :: "CompileOptions option \<Rightarrow> TealOp \<Rightarrow> TealBlock" where
  "FromOp options teal_op = \<lparr>ops = [teal_op]\<rparr>"

text \<open>
  Modelled from the spec: \<^verbatim>\<open>verifyFieldVersion\<close> of \<^verbatim>\<open>pyteal/errors.py\<close>, not among the
  sources. It succeeds iff the requested version is at least the field's minimum
  version, and otherwise fails with \<^verbatim>\<open>UnsupportedVersionError\<close> carrying the field's
  canonical name, its minimum version and the requested version.
\<close>

definition verifyFieldVersion :: "string \<Rightarrow> int \<Rightarrow> int \<Rightarrow> teal_error + unit" where
  "verifyFieldVersion fieldName fieldMinVersion requested =
     (if requested \<ge> fieldMinVersion then Inr ()
      else Inl (UnsupportedVersionError fieldName fieldMinVersion requested))"

subsection \<open>\<^verbatim>\<open>Global\<close>\<close>

text \<open>\<^verbatim>\<open>Global.__init__\<close> stores the field and raises nothing.\<close>

definition Global_init :: "GlobalField \<Rightarrow> Global" where
  "Global_init f = Global f"

text \<open>\<^verbatim>\<open>Global.__teal__\<close>: the version check first, then one \<^verbatim>\<open>global\<close> instruction.\<close>

definition Global_teal :: "Global \<Rightarrow> CompileOptions \<Rightarrow> teal_error + TealBlock" where
  "Global_teal self options =
     (case verifyFieldVersion (arg_name (Global_field self)) (min_version (Global_field self))
             (version options) of
        Inl e \<Rightarrow> Inl e
      | Inr _ \<Rightarrow>
          Inr (FromOp (Some options)
                 \<lparr>expr = Some (Expr_Global self), op = Op_global, args = [ArgStr (arg_name (Global_field self))]\<rparr>))"

definition Global_str :: "Global \<Rightarrow> string" where
  "Global_str self = ''(Global '' @ arg_name (Global_field self) @ '')''"

definition Global_type_of :: "Global \<Rightarrow> TealType" where
  "Global_type_of self = GlobalField_type_of (Global_field self)"

text \<open>The class methods of \<^verbatim>\<open>Global\<close>, one for each field.\<close>

definition Global_min_txn_fee :: Global where
  "Global_min_txn_fee = Global_init GlobalField_min_txn_fee"

definition Global_min_balance :: Global where
  "Global_min_balance = Global_init GlobalField_min_balance"

definition Global_max_txn_life :: Global where
  "Global_max_txn_life = Global_init GlobalField_max_txn_life"

definition Global_zero_address :: Global where
  "Global_zero_address = Global_init GlobalField_zero_address"

definition Global_group_size :: Global where
  "Global_group_size = Global_init GlobalField_group_size"

definition Global_logic_sig_version :: Global where
  "Global_logic_sig_version = Global_init GlobalField_logic_sig_version"

definition Global_round :: Global where
  "Global_round = Global_init GlobalField_round"

definition Global_latest_timestamp :: Global where
  "Global_latest_timestamp = Global_init GlobalField_latest_timestamp"

definition Global_current_application_id :: Global where
  "Global_current_application_id = Global_init GlobalField_current_app_id"

definition Global_creator_address :: Global where
  "Global_creator_address = Global_init GlobalField_creator_address"

subsection \<open>\<^verbatim>\<open>Int\<close>\<close>

text \<open>
  \<^verbatim>\<open>Int.__init__\<close>: the exact class of the argument is tested first (\<^verbatim>\<open>type(value) is not int\<close>),
  then the range. The message of the range error is formatted from the value before the
  error is raised, so a failure of that conversion is what the constructor raises.
\<close>

fun Int_init :: "py_value \<Rightarrow> teal_error + Int_Expr" where
  "Int_init (PyInt v) =
     (if v \<ge> 0 \<and> v < 2 ^ 64 then Inr (Int_Expr v)
      else (case py_str_int v of
              Inl e \<Rightarrow> Inl e
            | Inr s \<Rightarrow> Inl (TealInputError (''Int '' @ s @ '' is out of range''))))"
| "Int_init x =
     Inl (TealInputError (''invalid input type '' @ py_str_type (py_type x) @ '' to Int''))"

definition Int_teal :: "Int_Expr \<Rightarrow> TealBlock" where
  "Int_teal self =
     FromOp None \<lparr>expr = None, op = Op_int, args = [ArgInt (Int_value self)]\<rparr>"

definition Int_str :: "Int_Expr \<Rightarrow> teal_error + string" where
  "Int_str self =
     (case py_str_int (Int_value self) of
        Inl e \<Rightarrow> Inl e
      | Inr s \<Rightarrow> Inr (''(Int: '' @ s @ '')''))"

definition Int_type_of :: "Int_Expr \<Rightarrow> TealType" where
  "Int_type_of self = uint64"

subsection \<open>\<^verbatim>\<open>EnumInt\<close>\<close>

text \<open>The dictionary \<^verbatim>\<open>intEnumValues\<close>, in the order of its literal; its keys are distinct.\<close>

definition intEnumValues :: "(string \<times> int) list" where
  "intEnumValues =
     [(''NoOp'', 0), (''OptIn'', 1), (''CloseOut'', 2), (''ClearState'', 3),
      (''UpdateApplication'', 4), (''DeleteApplication'', 5),
      (''unknown'', 0), (''pay'', 1), (''keyreg'', 2), (''acfg'', 3), (''axfer'', 4),
      (''afrz'', 5), (''appl'', 6)]"

text \<open>\<^verbatim>\<open>EnumInt.__init__\<close>: the name must be a key of the dictionary.\<close>

definition EnumInt_init :: "string \<Rightarrow> teal_error + EnumInt" where
  "EnumInt_init name =
     (if map_of intEnumValues name = None
      then Inl (TealInputError (''Unknown int enum value: '' @ name))
      else Inr (EnumInt name))"

text \<open>\<^verbatim>\<open>EnumInt.__teal__\<close>: the subscript \<^verbatim>\<open>intEnumValues[self.name]\<close> raises on a missing key.\<close>

definition EnumInt_teal :: "EnumInt \<Rightarrow> teal_error + TealBlock" where
  "EnumInt_teal self =
     (case map_of intEnumValues (EnumInt_name self) of
        None \<Rightarrow> Inl (KeyError (EnumInt_name self))
      | Some v \<Rightarrow> Inr (FromOp None \<lparr>expr = None, op = Op_int, args = [ArgInt v]\<rparr>))"

definition EnumInt_str :: "EnumInt \<Rightarrow> string" where
  "EnumInt_str self = ''(IntEnum: '' @ EnumInt_name self @ '')''"

definition EnumInt_type_of :: "EnumInt \<Rightarrow> TealType" where
  "EnumInt_type_of self = uint64"

subsection \<open>Method calls on any node\<close>

text \<open>\<^verbatim>\<open>type_of()\<close> dispatches on the class of the node; it takes no options.\<close>

fun type_of :: "Expr \<Rightarrow> TealType" where
  "type_of (Expr_Global self) = Global_type_of self"
| "type_of (Expr_Int self) = Int_type_of self"
| "type_of (Expr_EnumInt self) = EnumInt_type_of self"

text \<open>
  Lowering a node, as a call that also returns the receiver as the call leaves it: no
  \<^verbatim>\<open>__teal__\<close> of the three classes assigns an attribute of \<^verbatim>\<open>self\<close>. Only \<^verbatim>\<open>Global.__teal__\<close>
  takes the options.
\<close>

fun lower :: "Expr \<Rightarrow> CompileOptions \<Rightarrow> Expr \<times> (teal_error + TealBlock)" where
  "lower (Expr_Global self) options = (Expr_Global self, Global_teal self options)"
| "lower (Expr_Int self) options = (Expr_Int self, Inr (Int_teal self))"
| "lower (Expr_EnumInt self) options = (Expr_EnumInt self, EnumInt_teal self)"


section \<open>Facts about the rendering of integers and the two tables\<close>

lemma digit_value_digit_char: "d < 10 \<Longrightarrow> digit_value (digit_char d) = d"
proof -
  assume "d < 10"
  then have "d \<in> {0, 1, 2, 3, 4, 5, 6, 7, 8, 9}" by auto
  then show ?thesis
    by (auto simp: digit_value_def digit_char_def)
qed

lemma digit_char_digit_value:
  "c \<in> set ''0123456789'' \<Longrightarrow> digit_value c < 10 \<and> digit_char (digit_value c) = c"
  by (auto simp: digit_value_def digit_char_def)

lemma digit_char_mem: "d < 10 \<Longrightarrow> digit_char d \<in> set ''0123456789''"
  unfolding digit_char_def by (rule nth_mem) simp

lemma digit_char_nonzero: "0 < d \<Longrightarrow> d < 10 \<Longrightarrow> digit_char d \<in> set ''123456789''"
proof -
  assume "0 < d" "d < 10"
  then have "d \<in> {1, 2, 3, 4, 5, 6, 7, 8, 9}" by auto
  then show ?thesis by (auto simp: digit_char_def)
qed

lemma digit_value_nonzero: "c \<in> set ''123456789'' \<Longrightarrow> 0 < digit_value c"
  by (auto simp: digit_value_def)

lemma str_nat_small: "n < 10 \<Longrightarrow> str_nat n = [digit_char n]"
  by (subst str_nat.simps) simp

lemma str_nat_big: "\<not> n < 10 \<Longrightarrow> str_nat n = str_nat (n div 10) @ [digit_char (n mod 10)]"
  by (subst str_nat.simps) simp

lemma str_nat_nonempty: "str_nat n \<noteq> []"
  by (cases "n < 10") (simp_all add: str_nat_small str_nat_big)

lemma nat_of_decimal_snoc:
  "nat_of_decimal (s @ [c]) = 10 * nat_of_decimal s + digit_value c"
  by (simp add: nat_of_decimal_def)

lemma nat_of_decimal_str_nat: "nat_of_decimal (str_nat n) = n"
proof (induction n rule: str_nat.induct)
  case (1 n)
  show ?case
  proof (cases "n < 10")
    case True
    then show ?thesis
      by (simp add: str_nat_small nat_of_decimal_def digit_value_digit_char)
  next
    case False
    with 1 have ih: "nat_of_decimal (str_nat (n div 10)) = n div 10" by simp
    show ?thesis
      using False ih by (simp add: str_nat_big nat_of_decimal_snoc digit_value_digit_char)
  qed
qed

lemma str_nat_digits: "set (str_nat n) \<subseteq> set ''0123456789''"
proof (induction n rule: str_nat.induct)
  case (1 n)
  show ?case
  proof (cases "n < 10")
    case True
    then show ?thesis using digit_char_mem [of n] by (simp add: str_nat_small)
  next
    case False
    with 1 have "set (str_nat (n div 10)) \<subseteq> set ''0123456789''" by simp
    moreover have "digit_char (n mod 10) \<in> set ''0123456789''" by (rule digit_char_mem) simp
    ultimately show ?thesis using False by (simp add: str_nat_big)
  qed
qed

lemma str_nat_leading: "0 < n \<Longrightarrow> hd (str_nat n) \<in> set ''123456789''"
proof (induction n rule: str_nat.induct)
  case (1 n)
  show ?case
  proof (cases "n < 10")
    case True
    then show ?thesis using digit_char_nonzero [of n] "1.prems" by (simp add: str_nat_small)
  next
    case False
    then have "0 < n div 10" by simp
    with 1 False have "hd (str_nat (n div 10)) \<in> set ''123456789''" by simp
    then show ?thesis using False by (simp add: str_nat_big str_nat_nonempty)
  qed
qed

lemma str_nat_zero: "str_nat 0 = ''0''"
  by (simp add: str_nat_small digit_char_def)

text \<open>\<open>str_nat\<close> renders the decimal form of its argument, and nothing else is that form.\<close>

lemma str_nat_is_decimal: "is_decimal_of (str_nat n) n"
proof (cases "n = 0")
  case True
  then show ?thesis
    unfolding is_decimal_of_def using str_nat_zero nat_of_decimal_str_nat [of 0] by simp
next
  case False
  then have "0 < n" by simp
  then have "hd (str_nat n) \<in> set ''123456789''" by (rule str_nat_leading)
  then show ?thesis
    unfolding is_decimal_of_def
    using str_nat_nonempty [of n] str_nat_digits [of n] nat_of_decimal_str_nat [of n] by blast
qed

lemma nat_of_decimal_pos:
  assumes "s \<noteq> []" and "hd s \<in> set ''123456789''"
  shows "0 < nat_of_decimal s"
  using assms
proof (induction s rule: rev_induct)
  case Nil
  then show ?case by simp
next
  case (snoc c s)
  show ?case
  proof (cases "s = []")
    case True
    with snoc.prems show ?thesis
      using digit_value_nonzero [of c] by (simp add: nat_of_decimal_def)
  next
    case False
    with snoc have "0 < nat_of_decimal s" by simp
    then show ?thesis by (simp add: nat_of_decimal_snoc)
  qed
qed

lemma is_decimal_unique: "is_decimal_of s n \<Longrightarrow> s = str_nat n"
proof (induction n arbitrary: s rule: str_nat.induct)
  case (1 n)
  from "1.prems" have ne: "s \<noteq> []" and dg: "set s \<subseteq> set ''0123456789''"
    and ld: "s = ''0'' \<or> hd s \<in> set ''123456789''" and val: "nat_of_decimal s = n"
    unfolding is_decimal_of_def by blast+
  define t c where "t = butlast s" and "c = last s"
  have s: "s = t @ [c]" using ne by (simp add: t_def c_def)
  have cd: "c \<in> set ''0123456789''" using dg s by auto
  have td: "set t \<subseteq> set ''0123456789''" using dg s by auto
  have cv: "digit_value c < 10" and cc: "digit_char (digit_value c) = c"
    using digit_char_digit_value [OF cd] by blast+
  have n: "n = 10 * nat_of_decimal t + digit_value c"
    using val s by (simp add: nat_of_decimal_snoc)
  have lead: "hd t \<in> set ''123456789''" if "t \<noteq> []"
  proof -
    from that s have "s \<noteq> ''0''" by auto
    with ld have "hd s \<in> set ''123456789''" by blast
    with that s show ?thesis by simp
  qed
  show ?case
  proof (cases "n < 10")
    case True
    have "t = []"
    proof (rule ccontr)
      assume "t \<noteq> []"
      then have "0 < nat_of_decimal t" using lead by (simp add: nat_of_decimal_pos)
      with n True show False by simp
    qed
    with n cc s True show ?thesis by (simp add: str_nat_small nat_of_decimal_def)
  next
    case False
    have tne: "t \<noteq> []"
    proof
      assume "t = []"
      with n cv have "n < 10" by (simp add: nat_of_decimal_def)
      with False show False by simp
    qed
    have d: "n div 10 = nat_of_decimal t" and m: "n mod 10 = digit_value c"
      using n cv by simp_all
    have "is_decimal_of t (n div 10)"
      unfolding is_decimal_of_def using tne td lead d by simp
    with "1.IH" False have "t = str_nat (n div 10)" by simp
    with s m cc False show ?thesis by (simp add: str_nat_big)
  qed
qed

text \<open>The number of digits: at most \<open>k\<close> below \<open>10^k\<close>, more than \<open>k\<close> from \<open>10^k\<close> on.\<close>

lemma length_str_nat_le: "0 < k \<Longrightarrow> n < 10 ^ k \<Longrightarrow> length (str_nat n) \<le> k"
proof (induction n arbitrary: k rule: str_nat.induct)
  case (1 n)
  show ?case
  proof (cases "n < 10")
    case True
    with "1.prems" show ?thesis by (simp add: str_nat_small)
  next
    case False
    obtain j where k: "k = Suc j" using "1.prems" by (cases k) auto
    have "0 < j" using False "1.prems" k by (cases j) auto
    moreover have "n div 10 < 10 ^ j" using "1.prems" k by (simp add: less_mult_imp_div_less)
    ultimately have "length (str_nat (n div 10)) \<le> j" using "1.IH" False by simp
    then show ?thesis using False k by (simp add: str_nat_big)
  qed
qed

lemma length_str_nat_gt: "10 ^ k \<le> n \<Longrightarrow> k < length (str_nat n)"
proof (induction n arbitrary: k rule: str_nat.induct)
  case (1 n)
  show ?case
  proof (cases "n < 10")
    case True
    have "k = 0"
    proof (cases k)
      case 0
      then show ?thesis .
    next
      case (Suc j)
      have "(1::nat) \<le> 10 ^ j" by simp
      then have "(10::nat) \<le> 10 ^ k" using Suc by simp
      with "1.prems" True show ?thesis by simp
    qed
    then show ?thesis using True by (simp add: str_nat_small)
  next
    case False
    show ?thesis
    proof (cases k)
      case 0
      then show ?thesis using str_nat_nonempty [of n] by (cases "str_nat n") auto
    next
      case (Suc j)
      with "1.prems" have "10 ^ j \<le> n div 10" by (simp add: less_eq_div_iff_mult_less_eq)
      with "1.IH" False have "j < length (str_nat (n div 10))" by simp
      then show ?thesis using False Suc by (simp add: str_nat_big)
    qed
  qed
qed

lemma str_nat_max: "str_nat 18446744073709551615 = ''18446744073709551615''"
  by (simp add: str_nat.simps digit_char_def)

lemma str_nat_over: "str_nat 18446744073709551616 = ''18446744073709551616''"
  by (simp add: str_nat.simps digit_char_def)

text \<open>Within the limit of the interpreter the conversion gives the sign and the digits.\<close>

lemma py_str_int_short:
  assumes "\<bar>v\<bar> < 10 ^ int_max_str_digits"
  shows "py_str_int v = Inr ((if v < 0 then ''-'' else []) @ str_nat (nat \<bar>v\<bar>))"
proof -
  have "nat \<bar>v\<bar> < 10 ^ int_max_str_digits"
    using assms by (simp add: nat_less_iff)
  moreover have "0 < int_max_str_digits" by (simp add: int_max_str_digits_def)
  ultimately have "length (str_nat (nat \<bar>v\<bar>)) \<le> int_max_str_digits"
    by (simp add: length_str_nat_le)
  then show ?thesis by (simp add: py_str_int_def Let_def)
qed

text \<open>Beyond it the conversion raises.\<close>

lemma py_str_int_long:
  assumes "10 ^ int_max_str_digits \<le> \<bar>v\<bar>"
  shows "py_str_int v = Inl ValueError"
proof -
  have "10 ^ int_max_str_digits \<le> nat \<bar>v\<bar>"
    using assms by (simp add: le_nat_iff)
  then have "int_max_str_digits < length (str_nat (nat \<bar>v\<bar>))"
    by (rule length_str_nat_gt)
  then show ?thesis by (simp add: py_str_int_def Let_def)
qed

lemma uint64_below_limit: "(2::int) ^ 64 \<le> 10 ^ int_max_str_digits"
proof -
  have "(2::int) ^ 64 \<le> 10 ^ 64" by (rule power_mono) simp_all
  also have "(10::int) ^ 64 \<le> 10 ^ int_max_str_digits"
    by (rule power_increasing) (simp_all add: int_max_str_digits_def)
  finally show ?thesis .
qed

lemma uint64_bound_below_limit: "(2::int) ^ 64 < 10 ^ int_max_str_digits"
proof -
  have "(2::int) ^ 64 < 10 ^ 64" by simp
  also have "(10::int) ^ 64 \<le> 10 ^ int_max_str_digits"
    by (rule power_increasing) (simp_all add: int_max_str_digits_def)
  finally show ?thesis .
qed

text \<open>
  What \<^verbatim>\<open>Int.__init__\<close> does outside the accepted range: a value of another class is refused
  with the error of the wrong kind of input; an \<^verbatim>\<open>int\<close> out of range whose digits the
  interpreter converts is refused with the range error; and only an \<^verbatim>\<open>int\<close> in range
  gives a node.
\<close>

lemma Int_init_wrong_type:
  "py_type x \<noteq> Class_int \<Longrightarrow>
   Int_init x =
     Inl (TealInputError (''invalid input type '' @ py_str_type (py_type x) @ '' to Int''))"
  by (cases x) simp_all

lemma Int_init_not_in_range:
  "v < 0 \<or> 2 ^ 64 \<le> v \<Longrightarrow>
   Int_init (PyInt v) =
     (case py_str_int v of
        Inl e \<Rightarrow> Inl e
      | Inr s \<Rightarrow> Inl (TealInputError (''Int '' @ s @ '' is out of range'')))"
  by auto

lemma Int_init_out_of_range:
  assumes "v < 0 \<or> 2 ^ 64 \<le> v" and "\<bar>v\<bar> < 10 ^ int_max_str_digits"
  shows "Int_init (PyInt v) =
     Inl (TealInputError
       (''Int '' @ (if v < 0 then ''-'' else []) @ str_nat (nat \<bar>v\<bar>) @ '' is out of range''))"
  using assms(1) py_str_int_short [OF assms(2)] by auto

lemma Int_init_Inr_iff:
  "Int_init x = Inr n \<longleftrightarrow> (\<exists>v. x = PyInt v \<and> 0 \<le> v \<and> v < 2 ^ 64 \<and> n = Int_Expr v)"
  by (cases x) (auto split: sum.splits)

lemma Int_init_examples:
  "Int_init (PyFloat 3 (- 1)) =
     Inl (TealInputError ''invalid input type <class 'float'> to Int'') \<and>
   Int_init (PyObject ''<enum 'GlobalField'>'') =
     Inl (TealInputError ''invalid input type <enum 'GlobalField'> to Int'') \<and>
   Int_init (PyInt 18446744073709551616) =
     Inl (TealInputError ''Int 18446744073709551616 is out of range'') \<and>
   Int_init (PyInt (- 1)) = Inl (TealInputError ''Int -1 is out of range'')"
proof -
  have a: "\<bar>18446744073709551616::int\<bar> < 10 ^ int_max_str_digits"
    using uint64_bound_below_limit by simp
  have b: "\<bar>- 1::int\<bar> < 10 ^ int_max_str_digits"
    using uint64_bound_below_limit by simp
  have c: "str_nat (Suc 0) = ''1''" by (simp add: str_nat_small digit_char_def)
  have p1: "py_str_int 18446744073709551616 = Inr ''18446744073709551616''"
    using py_str_int_short [OF a] by (simp add: str_nat_over)
  have p2: "py_str_int (- 1) = Inr ''-1''"
    using py_str_int_short [OF b] by (simp add: c)
  show ?thesis by (simp add: p1 p2)
qed

lemma py_type_int_iff: "py_type x = Class_int \<longleftrightarrow> (\<exists>v. x = PyInt v)"
  by (cases x) simp_all

text \<open>The list of members is the whole enumeration.\<close>

lemma GlobalField_members_all: "set GlobalField_members = UNIV"
proof -
  have "f \<in> set GlobalField_members" for f
    by (cases f) (simp_all add: GlobalField_members_def)
  then show ?thesis by auto
qed

text \<open>Every class method of \<^verbatim>\<open>Global\<close> builds the node of a member, and every member has one.\<close>

lemma Global_factories_cover:
  "map Global GlobalField_members =
     [Global_min_txn_fee, Global_min_balance, Global_max_txn_life, Global_zero_address,
      Global_group_size, Global_logic_sig_version, Global_round, Global_latest_timestamp,
      Global_current_application_id, Global_creator_address]"
  by (simp add: GlobalField_members_def Global_init_def Global_min_txn_fee_def
      Global_min_balance_def Global_max_txn_life_def Global_zero_address_def
      Global_group_size_def Global_logic_sig_version_def Global_round_def
      Global_latest_timestamp_def Global_current_application_id_def
      Global_creator_address_def)

text \<open>
  No key occurs twice in the literal of \<^verbatim>\<open>intEnumValues\<close>, so the first binding of a key (which
  \<open>map_of\<close> takes) is also its last (which a Python dictionary keeps).
\<close>

lemma intEnumValues_keys_distinct: "distinct (map fst intEnumValues)"
  by (simp add: intEnumValues_def)

lemma intEnumValues_range:
  assumes "map_of intEnumValues name = Some v"
  shows "0 \<le> v \<and> v \<le> 6"
proof -
  from assms have "(name, v) \<in> set intEnumValues" by (rule map_of_SomeD)
  then show ?thesis by (auto simp: intEnumValues_def)
qed

section \<open>Lowering a global field\<close>

text \<open>
  C1. For every member \<open>f\<close> of the registry and all options: when the options' version is at
  least the minimum version of \<open>f\<close>, lowering the node of \<open>f\<close> succeeds with a unit of exactly
  one instruction, a \<^verbatim>\<open>global\<close> whose only operand is the canonical name of \<open>f\<close>; when it is
  lower, lowering fails with \<^verbatim>\<open>UnsupportedVersionError\<close> carrying the canonical name, the
  minimum version and the requested version, and there is no unit.
\<close>

theorem Global_teal_version_check:
  "Global_teal (Global_init f) options =
     (if min_version f \<le> version options
      then Inr \<lparr>ops = [\<lparr>expr = Some (Expr_Global (Global f)), op = Op_global,
                         args = [ArgStr (arg_name f)]\<rparr>]\<rparr>
      else Inl (UnsupportedVersionError (arg_name f) (min_version f) (version options)))"
  by (simp add: Global_teal_def Global_init_def verifyFieldVersion_def FromOp_def)

text \<open>
  C6. The registry gives \<^verbatim>\<open>group_size\<close> the minimum version 2 and the name \<^verbatim>\<open>GroupSize\<close>, and
  \<^verbatim>\<open>creator_address\<close> the minimum version 3, the name \<^verbatim>\<open>CreatorAddress\<close> and the type bytes.
  Lowering \<^verbatim>\<open>Global.group_size()\<close> fails under version 1 with
  \<^verbatim>\<open>UnsupportedVersionError("GroupSize", 2, 1)\<close> and gives one instruction with operand
  \<^verbatim>\<open>GroupSize\<close> under version 2; lowering \<^verbatim>\<open>Global.creator_address()\<close> fails under version 2
  and gives one instruction with operand \<^verbatim>\<open>CreatorAddress\<close> under version 3.
\<close>

theorem Global_teal_scenarios:
  "min_version GlobalField_group_size = 2 \<and>
   arg_name GlobalField_group_size = ''GroupSize'' \<and>
   min_version GlobalField_creator_address = 3 \<and>
   arg_name GlobalField_creator_address = ''CreatorAddress'' \<and>
   ret_type GlobalField_creator_address = bytes \<and>
   Global_type_of Global_creator_address = bytes \<and>
   Global_teal Global_group_size \<lparr>mode = m, version = 1\<rparr> =
     Inl (UnsupportedVersionError ''GroupSize'' 2 1) \<and>
   Global_teal Global_group_size \<lparr>mode = m, version = 2\<rparr> =
     Inr \<lparr>ops = [\<lparr>expr = Some (Expr_Global Global_group_size), op = Op_global,
                    args = [ArgStr ''GroupSize'']\<rparr>]\<rparr> \<and>
   Global_teal Global_creator_address \<lparr>mode = m, version = 2\<rparr> =
     Inl (UnsupportedVersionError ''CreatorAddress'' 3 2) \<and>
   Global_teal Global_creator_address \<lparr>mode = m, version = 3\<rparr> =
     Inr \<lparr>ops = [\<lparr>expr = Some (Expr_Global Global_creator_address), op = Op_global,
                    args = [ArgStr ''CreatorAddress'']\<rparr>]\<rparr>"
  by (simp add: min_version_def arg_name_def ret_type_def GlobalField_type_of_def
      Global_type_of_def Global_teal_def Global_group_size_def Global_creator_address_def
      Global_init_def verifyFieldVersion_def FromOp_def)

text \<open>
  C8. In the registry, no two members share an id and no two share a canonical name: over
  the list of all members, the ids are pairwise distinct and so are the names.
\<close>

theorem GlobalField_id_name_unique:
  "distinct (map GlobalField_id GlobalField_members) \<and>
   distinct (map arg_name GlobalField_members) \<and>
   set GlobalField_members = UNIV"
  by (simp add: GlobalField_members_all)
     (simp add: GlobalField_members_def GlobalField_id_def arg_name_def)

section \<open>Integer literals\<close>

text \<open>
  C3. For every integer \<open>v\<close> with \<open>0 \<le> v < 2^64\<close>, \<^verbatim>\<open>Int(v)\<close> is constructed, with value \<open>v\<close>; its
  \<^verbatim>\<open>type_of()\<close> is the unsigned 64-bit type; and its string is produced and is \<^verbatim>\<open>(Int: \<close>,
  then a string \<open>d\<close>, then \<^verbatim>\<open>)\<close>, where \<open>d\<close> is the decimal form of \<open>v\<close>: not empty, digits
  only, without a leading zero unless it is \<^verbatim>\<open>0\<close>, and reading back as \<open>v\<close>.
\<close>

theorem Int_init_in_range:
  assumes "0 \<le> v" and "v < 2 ^ 64"
  shows "Int_init (PyInt v) = Inr (Int_Expr v) \<and>
         Int_type_of (Int_Expr v) = uint64 \<and>
         type_of (Expr_Int (Int_Expr v)) = uint64 \<and>
         (\<exists>d. Int_str (Int_Expr v) = Inr (''(Int: '' @ d @ '')'') \<and>
              d \<noteq> [] \<and> set d \<subseteq> set ''0123456789'' \<and>
              (d = ''0'' \<or> hd d \<in> set ''123456789'') \<and>
              nat_of_decimal d = nat v \<and>
              is_decimal_of d (nat v) \<and> d = str_nat (nat v))"
proof -
  have "\<bar>v\<bar> < 10 ^ int_max_str_digits"
    using assms uint64_bound_below_limit by simp
  then have "py_str_int v = Inr (str_nat (nat v))"
    using assms(1) py_str_int_short [of v] by simp
  then have s: "Int_str (Int_Expr v) = Inr (''(Int: '' @ str_nat (nat v) @ '')'')"
    by (simp add: Int_str_def)
  have d: "is_decimal_of (str_nat (nat v)) (nat v)" by (rule str_nat_is_decimal)
  from d have "str_nat (nat v) \<noteq> []" and "set (str_nat (nat v)) \<subseteq> set ''0123456789''"
    and "str_nat (nat v) = ''0'' \<or> hd (str_nat (nat v)) \<in> set ''123456789''"
    and "nat_of_decimal (str_nat (nat v)) = nat v"
    unfolding is_decimal_of_def by blast+
  with s d have "\<exists>d. Int_str (Int_Expr v) = Inr (''(Int: '' @ d @ '')'') \<and>
      d \<noteq> [] \<and> set d \<subseteq> set ''0123456789'' \<and>
      (d = ''0'' \<or> hd d \<in> set ''123456789'') \<and>
      nat_of_decimal d = nat v \<and> is_decimal_of d (nat v) \<and> d = str_nat (nat v)"
    by blast
  moreover have "Int_init (PyInt v) = Inr (Int_Expr v)" using assms by simp
  ultimately show ?thesis by (simp add: Int_type_of_def)
qed

text \<open>
  The largest value, \<open>2^64 - 1\<close>, is constructed and shows as \<^verbatim>\<open>(Int: 18446744073709551615)\<close>;
  the least, 0, shows as \<^verbatim>\<open>(Int: 0)\<close>.
\<close>

theorem Int_init_in_range_witness:
  "(0::int) \<le> 18446744073709551615 \<and> (18446744073709551615::int) < 2 ^ 64 \<and>
   Int_init (PyInt 18446744073709551615) = Inr (Int_Expr 18446744073709551615) \<and>
   type_of (Expr_Int (Int_Expr 18446744073709551615)) = uint64 \<and>
   Int_str (Int_Expr 18446744073709551615) = Inr ''(Int: 18446744073709551615)'' \<and>
   Int_init (PyInt 0) = Inr (Int_Expr 0) \<and>
   Int_str (Int_Expr 0) = Inr ''(Int: 0)''"
proof -
  have h1: "(0::int) \<le> 18446744073709551615" by simp
  have h2: "(18446744073709551615::int) < 2 ^ 64" by simp
  have z1: "(0::int) \<le> 0" by simp
  have z2: "(0::int) < 2 ^ 64" by simp
  show ?thesis
    using h1 h2 Int_init_in_range [OF h1 h2] Int_init_in_range [OF z1 z2]
    by (simp add: str_nat_max str_nat_zero)
qed

text \<open>
  C4. A value of another class is refused with the error of the wrong kind of input, and
  an out-of-range \<^verbatim>\<open>int\<close> that the interpreter converts to a string is refused with the
  range error (lemmas \<open>Int_init_wrong_type\<close>, \<open>Int_init_out_of_range\<close>). Not every
  out-of-range \<^verbatim>\<open>int\<close> is: at \<^verbatim>\<open>Int(10 ** 4300)\<close> the value is an \<^verbatim>\<open>int\<close>, it is at least \<open>2^64\<close>,
  and the constructor fails, but with the \<^verbatim>\<open>ValueError\<close> of the conversion to a string of
  4301 digits, raised while the message is formatted, and not with the range error, a
  \<^verbatim>\<open>TealInputError\<close>. The same holds of its negative.
\<close>

theorem Int_init_huge_ValueError:
  "int_max_str_digits = 4300 \<and>
   (2::int) ^ 64 \<le> 10 ^ int_max_str_digits \<and>
   Int_init (PyInt (10 ^ int_max_str_digits)) = Inl ValueError \<and>
   Int_init (PyInt (- (10 ^ int_max_str_digits))) = Inl ValueError \<and>
   (\<forall>msg. Int_init (PyInt (10 ^ int_max_str_digits)) \<noteq> Inl (TealInputError msg))"
proof -
  have pos: "py_str_int (10 ^ int_max_str_digits) = Inl ValueError"
    by (rule py_str_int_long) simp
  have neg: "py_str_int (- (10 ^ int_max_str_digits)) = Inl ValueError"
    by (rule py_str_int_long) simp
  have "Int_init (PyInt (10 ^ int_max_str_digits)) =
      (case py_str_int (10 ^ int_max_str_digits) of
         Inl e \<Rightarrow> Inl e
       | Inr s \<Rightarrow> Inl (TealInputError (''Int '' @ s @ '' is out of range'')))"
    by (rule Int_init_not_in_range) (use uint64_below_limit in simp)
  also have "\<dots> = Inl ValueError" by (simp only: pos sum.case)
  finally have a: "Int_init (PyInt (10 ^ int_max_str_digits)) = Inl ValueError" .
  have "Int_init (PyInt (- (10 ^ int_max_str_digits))) =
      (case py_str_int (- (10 ^ int_max_str_digits)) of
         Inl e \<Rightarrow> Inl e
       | Inr s \<Rightarrow> Inl (TealInputError (''Int '' @ s @ '' is out of range'')))"
    by (rule Int_init_not_in_range) simp
  also have "\<dots> = Inl ValueError" by (simp only: neg sum.case)
  finally have b: "Int_init (PyInt (- (10 ^ int_max_str_digits))) = Inl ValueError" .
  have c: "int_max_str_digits = 4300" by (rule int_max_str_digits_def)
  have d: "\<forall>msg. Int_init (PyInt (10 ^ int_max_str_digits)) \<noteq> Inl (TealInputError msg)"
    by (simp only: a) simp
  from a b c d uint64_below_limit show ?thesis by blast
qed

text \<open>
  C10. \<^verbatim>\<open>Int(True)\<close> and \<^verbatim>\<open>Int(False)\<close> are refused with the error of the wrong kind of input,
  since the class of a boolean is \<^verbatim>\<open>bool\<close> and not \<^verbatim>\<open>int\<close>; neither gives the node of 1 or 0,
  nor any node.
\<close>

theorem Int_init_bool_rejected:
  "py_type (PyBool b) \<noteq> py_type (PyInt i) \<and>
   Int_init (PyBool b) = Inl (TealInputError ''invalid input type <class 'bool'> to Int'') \<and>
   Int_init (PyBool b) \<noteq> Inr n"
  by simp

section \<open>Enum literals\<close>

text \<open>
  C2. For every name the table binds to a value \<open>v\<close>, \<^verbatim>\<open>EnumInt(name)\<close> is constructed, \<^verbatim>\<open>Int(v)\<close>
  is constructed, and lowering the first gives the same unit, so the same operation and
  operands, as lowering the second.
\<close>

theorem EnumInt_teal_eq_Int_teal:
  assumes "map_of intEnumValues name = Some v"
  shows "EnumInt_init name = Inr (EnumInt name) \<and>
         Int_init (PyInt v) = Inr (Int_Expr v) \<and>
         EnumInt_teal (EnumInt name) = Inr (Int_teal (Int_Expr v))"
proof -
  from assms have "0 \<le> v \<and> v \<le> 6" by (rule intEnumValues_range)
  then have "Int_init (PyInt v) = Inr (Int_Expr v)" by simp
  moreover have "EnumInt_init name = Inr (EnumInt name)"
    using assms by (simp add: EnumInt_init_def)
  moreover have "EnumInt_teal (EnumInt name) = Inr (Int_teal (Int_Expr v))"
    using assms by (simp add: EnumInt_teal_def Int_teal_def)
  ultimately show ?thesis by simp
qed

text \<open>\<^verbatim>\<open>EnumInt("OptIn")\<close> lowers to the instruction of \<^verbatim>\<open>Int(1)\<close>.\<close>

theorem EnumInt_teal_eq_Int_teal_witness:
  "map_of intEnumValues ''OptIn'' = Some 1 \<and>
   EnumInt_init ''OptIn'' = Inr (EnumInt ''OptIn'') \<and>
   Int_init (PyInt 1) = Inr (Int_Expr 1) \<and>
   EnumInt_teal (EnumInt ''OptIn'') = Inr (Int_teal (Int_Expr 1)) \<and>
   Int_teal (Int_Expr 1) = \<lparr>ops = [\<lparr>expr = None, op = Op_int, args = [ArgInt 1]\<rparr>]\<rparr>"
proof -
  have h: "map_of intEnumValues ''OptIn'' = Some 1" by (simp add: intEnumValues_def)
  show ?thesis
    using h EnumInt_teal_eq_Int_teal [OF h] by (simp add: Int_teal_def FromOp_def)
qed

text \<open>
  C5. For every name that is not a key of the table, \<^verbatim>\<open>EnumInt(name)\<close> fails in the
  constructor with the error of an unknown enum value, naming it, and there is no node.
\<close>

theorem EnumInt_init_unknown:
  assumes "map_of intEnumValues name = None"
  shows "EnumInt_init name = Inl (TealInputError (''Unknown int enum value: '' @ name))"
  using assms by (simp add: EnumInt_init_def)

text \<open>The lookup is exact: \<^verbatim>\<open>optin\<close> is not \<^verbatim>\<open>OptIn\<close>.\<close>

theorem EnumInt_init_unknown_witness:
  "map_of intEnumValues ''optin'' = None \<and>
   EnumInt_init ''optin'' = Inl (TealInputError ''Unknown int enum value: optin'')"
proof -
  have h: "map_of intEnumValues ''optin'' = None" by (simp add: intEnumValues_def)
  show ?thesis using h EnumInt_init_unknown [OF h] by simp
qed

text \<open>
  C9. The table is one flat dictionary over two domains whose values overlap:
  \<^verbatim>\<open>EnumInt("OptIn")\<close> and \<^verbatim>\<open>EnumInt("pay")\<close> are both constructed and both lower to the
  instruction \<^verbatim>\<open>int 1\<close>, and \<^verbatim>\<open>EnumInt("NoOp")\<close> and \<^verbatim>\<open>EnumInt("unknown")\<close> both lower to
  \<^verbatim>\<open>int 0\<close>, so the units do not tell the domains apart.
\<close>

theorem EnumInt_teal_domains_collide:
  "EnumInt_init ''OptIn'' = Inr (EnumInt ''OptIn'') \<and>
   EnumInt_init ''pay'' = Inr (EnumInt ''pay'') \<and>
   EnumInt_init ''NoOp'' = Inr (EnumInt ''NoOp'') \<and>
   EnumInt_init ''unknown'' = Inr (EnumInt ''unknown'') \<and>
   EnumInt_teal (EnumInt ''OptIn'') =
     Inr \<lparr>ops = [\<lparr>expr = None, op = Op_int, args = [ArgInt 1]\<rparr>]\<rparr> \<and>
   EnumInt_teal (EnumInt ''pay'') = EnumInt_teal (EnumInt ''OptIn'') \<and>
   EnumInt_teal (EnumInt ''NoOp'') =
     Inr \<lparr>ops = [\<lparr>expr = None, op = Op_int, args = [ArgInt 0]\<rparr>]\<rparr> \<and>
   EnumInt_teal (EnumInt ''unknown'') = EnumInt_teal (EnumInt ''NoOp'')"
  by (simp add: EnumInt_init_def EnumInt_teal_def intEnumValues_def FromOp_def)

section \<open>The result type of a node\<close>

text \<open>
  C7. For each of the three node shapes, \<^verbatim>\<open>type_of()\<close> is a function of the node alone: it
  takes no options and always returns a type, the field's \<^verbatim>\<open>ret_type\<close> for a \<^verbatim>\<open>Global\<close> and
  the unsigned 64-bit type for an \<^verbatim>\<open>Int\<close> or an \<^verbatim>\<open>EnumInt\<close>. Lowering under any options,
  whether it succeeds or fails, leaves the node as it was, so \<^verbatim>\<open>type_of()\<close> after lowering
  returns what it returns before or without lowering.
\<close>

theorem type_of_independent_of_lowering:
  "fst (lower e options) = e \<and>
   type_of (fst (lower e options)) = type_of e \<and>
   type_of e =
     (case e of
        Expr_Global g \<Rightarrow> ret_type (Global_field g)
      | Expr_Int i \<Rightarrow> uint64
      | Expr_EnumInt n \<Rightarrow> uint64)"
  by (cases e) (simp_all add: Global_type_of_def GlobalField_type_of_def Int_type_of_def
      EnumInt_type_of_def)

end
